theory Spec2Isabelle
  imports Complex_Main "HOL-Library.AList" "HOL-Library.Sublist"
begin

section \<open>The code-execution bot of main.py: data model\<close>

text \<open>
  The module keeps its state in global variables: \<^verbatim>\<open>execution_history\<close> (a list of
  dicts), \<^verbatim>\<open>user_stats\<close> (a dict from user id to a dict of counters), the sets
  \<^verbatim>\<open>TRUSTED_USERS\<close> and \<^verbatim>\<open>BLOCKED_USERS\<close>, and \<^verbatim>\<open>config\<close> (the dict that is
  written to the JSON file). They are the fields of the record \<open>state\<close>, which every
  command handler takes and returns. Python's \<^verbatim>\<open>int\<close> is \<open>int\<close>; the float
  durations are exact reals; a timestamp is the text \<^verbatim>\<open>datetime.now().isoformat()\<close>
  gives, read from the invocation context.
\<close>

type_synonym user_id = int
type_synonym timestamp = string

text \<open>The value of \<^verbatim>\<open>user_stats[user_id]\<close>, built in \<^verbatim>\<open>get_user_stats\<close>.\<close>

record stats =
  executions :: int
  errors :: int
  total_time :: real
  first_use :: timestamp

text \<open>
  A history entry. The success path stores the key \<^verbatim>\<open>'output'\<close>, the failure path
  the key \<^verbatim>\<open>'error'\<close>; \<open>entry_body\<close> holds the one that is there. The fields are
  the keys \<^verbatim>\<open>'user'\<close>, \<^verbatim>\<open>'code'\<close>, \<^verbatim>\<open>'timestamp'\<close> and \<^verbatim>\<open>'status'\<close>.
\<close>

datatype body = Output string | Error string

record entry =
  entry_user :: user_id
  entry_code :: string
  entry_body :: body
  entry_timestamp :: timestamp
  entry_status :: string

text \<open>
  \<^verbatim>\<open>config\<close>: the lists under \<^verbatim>\<open>'trusted_users'\<close> and \<^verbatim>\<open>'blocked_users'\<close>. A
  handler stores \<^verbatim>\<open>list(TRUSTED_USERS)\<close> there, whose order Python leaves open, so
  each list is kept as the set of its elements.
\<close>

record config =
  trusted_users :: "user_id set"
  blocked_users :: "user_id set"

text \<open>
  \<^verbatim>\<open>user_stats\<close> is an association list in insertion order, the order a Python dict
  iterates in (the leaderboard sorts its items stably).
\<close>

record state =
  execution_history :: "entry list"
  user_stats :: "(user_id \<times> stats) list"
  TRUSTED_USERS :: "user_id set"
  BLOCKED_USERS :: "user_id set"
  config :: config

definition MAX_HISTORY :: nat where
  "MAX_HISTORY = 100"

definition EXECUTION_TIMEOUT :: real where
  "EXECUTION_TIMEOUT = 30"

text \<open>
  Module start: empty history and ledger, the two sets read from the loaded
  configuration.
\<close>

definition init_state :: "config \<Rightarrow> state" where
  "init_state cfg =
     \<lparr>execution_history = [], user_stats = [],
      TRUSTED_USERS = trusted_users cfg, BLOCKED_USERS = blocked_users cfg,
      config = cfg\<rparr>"

section \<open>What a handler sends back\<close>

text \<open>
  The embeds and plain messages a handler sends, by title, with the values shown in
  them. \<open>Blocked\<close> and \<open>NotOwner\<close> are the two check failures that
  \<^verbatim>\<open>on_command_error\<close> renders as "Permission Denied". \<open>Unhandled x\<close> stands for
  an exception \<open>x\<close> that leaves the handler: nothing is sent to the channel.
\<close>

datatype denial = Blocked | NotOwner

text \<open>
  The three messages of \<^verbatim>\<open>CodeAnalyzer.analyze\<close>:
  "Dangerous operation detected: `name`", "Syntax Error: e" and "Code analysis passed".
\<close>

datatype message = Dangerous string | SyntaxError string | Passed

text \<open>
  A Python exception as far as the module tells exceptions apart: a
  \<^verbatim>\<open>SyntaxError\<close> with its text, or any other exception, by the name of its type.
\<close>

datatype exception = PySyntaxError string | PyException string

datatype response =
    PermissionDenied denial
  | AnalysisFailed message
  | PythonExecution string real int
  | ExecutionTimeout
  | RuntimeError string real
  | UserTrusted user_id
  | UserUntrusted user_id
  | UserBlocked user_id
  | UserUnblocked user_id
  | Statistics stats real real
  | NoExecutionData
  | LeaderboardShown "(user_id \<times> stats) list"
  | NoHistory
  | RecentExecutions "entry list"
  | CodeAnalysis bool message
  | Synchronization
  | Help
  | Unhandled exception

section \<open>What lies outside the module\<close>

text \<open>
  The syntax tree of \<^verbatim>\<open>ast.parse\<close>, as far as \<^verbatim>\<open>analyze\<close> looks at it: names,
  attribute accesses, calls (the called expression, then the arguments and keyword
  arguments), and every other kind of node with its children in the order
  \<^verbatim>\<open>ast.iter_child_nodes\<close> yields them. The expression-context leaves (\<^verbatim>\<open>Load\<close>)
  are left out: they have no children and are never calls.
\<close>

datatype node =
    Name string
  | Attribute node string
  | Call node "node list"
  | Other "node list"

text \<open>
  The Python library and the interpreter are parameters of the model:
  \<^item> \<open>owner_id\<close>: \<^verbatim>\<open>bot.owner_id\<close>;
  \<^item> \<open>ast_parse\<close>: \<^verbatim>\<open>ast.parse\<close>, \<open>Inl x\<close> when it raises the exception \<open>x\<close>;
  \<^item> \<open>ast_unparse\<close>: \<^verbatim>\<open>ast.unparse\<close>, \<open>Inl x\<close> when it raises the exception \<open>x\<close>
    (a \<^verbatim>\<open>RecursionError\<close> on a long chain of attribute accesses);
  \<^item> \<open>keyword_order\<close>: the order in which this process iterates over the set
    \<^verbatim>\<open>DANGEROUS_KEYWORDS\<close>, which Python does not fix.
\<close>

record runtime =
  owner_id :: user_id
  ast_parse :: "string \<Rightarrow> exception + node"
  ast_unparse :: "node \<Rightarrow> exception + string"
  keyword_order :: "string list"

text \<open>
  What \<^verbatim>\<open>exec(to_compile, ...)\<close> followed by \<^verbatim>\<open>await local_variables["func"]()\<close>
  does in one invocation, as far as the \<^verbatim>\<open>try\<close> statement of \<^verbatim>\<open>run_code\<close> tells the
  cases apart:
  \<^item> \<open>Returned out t\<close>: both complete; \<open>out\<close> is the captured standard output and
    \<open>t\<close> the seconds between the two readings of \<^verbatim>\<open>time.time()\<close>;
  \<^item> \<open>RaisedTimeoutError\<close>: an \<^verbatim>\<open>asyncio.TimeoutError\<close> comes out of them;
  \<^item> \<open>Raised e t\<close>: any other \<^verbatim>\<open>Exception\<close> comes out, with \<^verbatim>\<open>str(e)\<close> and the
    seconds up to the handler;
  \<^item> \<open>RaisedBase n\<close>: an exception of type \<open>n\<close> outside the \<^verbatim>\<open>Exception\<close>
    hierarchy comes out (\<^verbatim>\<open>SystemExit\<close>, \<^verbatim>\<open>KeyboardInterrupt\<close>), which neither
    handler catches;
  \<^item> \<open>Never\<close>: the awaited coroutine never completes.
\<close>

datatype completion =
    Returned string real
  | RaisedTimeoutError
  | Raised string real
  | RaisedBase string
  | Never

text \<open>
  The invocation context: the author of the message, the clock reading used for the
  timestamps of this invocation, and what the submitted code does when it is run:
  how the awaiting ends, and what the code has done by then to the global variables
  of the module (it runs in the process of the bot and can import the module, so it
  can change the ledger, the history and the policy sets).
\<close>

record ctx =
  author :: user_id
  now :: timestamp
  awaiting :: completion
  effect :: "state \<Rightarrow> state"

section \<open>Utility functions\<close>

text \<open>\<^verbatim>\<open>content.split("\n")\<close>: the pieces between the separators, never empty.\<close>

fun split :: "char \<Rightarrow> string \<Rightarrow> string list" where
  "split sep [] = [[]]"
| "split sep (c # cs) =
     (if c = sep then [] # split sep cs
      else (case split sep cs of [] \<Rightarrow> [[c]] | w # ws \<Rightarrow> (c # w) # ws))"

text \<open>\<^verbatim>\<open>"\n".join(parts)\<close>.\<close>

fun join :: "string \<Rightarrow> string list \<Rightarrow> string" where
  "join sep [] = []"
| "join sep [p] = p"
| "join sep (p # q # ps) = p @ sep @ join sep (q # ps)"

text \<open>\<^verbatim>\<open>content.strip(chars)\<close>: the characters of \<open>chars\<close> are removed at both ends.\<close>

definition strip :: "string \<Rightarrow> string \<Rightarrow> string" where
  "strip chars s =
     rev (dropWhile (\<lambda>c. c \<in> set chars) (rev (dropWhile (\<lambda>c. c \<in> set chars) s)))"

definition fence :: string where
  "fence = [CHR 0x60, CHR 0x60, CHR 0x60]"

text \<open>
  \<^verbatim>\<open>clean_code\<close>: a text that starts and ends with three backquotes loses its first
  and its last line (\<^verbatim>\<open>[1:-1]\<close> of the lines); any other text is stripped of
  backquotes, spaces and newlines at both ends.
\<close>

definition clean_code :: "string \<Rightarrow> string" where
  "clean_code content =
     (if prefix fence content \<and> suffix fence content
      then join [CHR 0x0A] (butlast (tl (split (CHR 0x0A) content)))
      else strip [CHR 0x60, CHR '' '', CHR 0x0A] content)"

section \<open>The analyzer\<close>

definition DANGEROUS_KEYWORDS :: "string set" where
  "DANGEROUS_KEYWORDS =
     {''os.system'', ''subprocess'', ''eval'', ''__import__'',
      ''open'', ''exec'', ''compile'', ''globals'', ''locals''}"

fun iter_child_nodes :: "node \<Rightarrow> node list" where
  "iter_child_nodes (Name i) = []"
| "iter_child_nodes (Attribute v a) = [v]"
| "iter_child_nodes (Call f args) = f # args"
| "iter_child_nodes (Other cs) = cs"

text \<open>
  \<^verbatim>\<open>ast.walk\<close>: a queue that starts with the root; the node at the front is taken
  off, its children are put at the back, and the node is yielded.
\<close>

function walk_queue :: "node list \<Rightarrow> node list" where
  "walk_queue [] = []"
| "walk_queue (n # todo) = n # walk_queue (todo @ iter_child_nodes n)"
  by pat_completeness auto
termination
proof (relation "measure (\<lambda>todo. sum_list (map (\<lambda>n. Suc (size n)) todo))")
  show "wf (measure (\<lambda>todo. sum_list (map (\<lambda>n. Suc (size n)) todo)))"
    by simp
next
  fix n :: node and todo :: "node list"
  have le: "sum_list (map (\<lambda>n. Suc (size n)) cs) \<le> size_list size cs" for cs :: "node list"
    by (induction cs) auto
  have "sum_list (map (\<lambda>n. Suc (size n)) (iter_child_nodes n)) < Suc (size n)"
  proof (cases n)
    case (Call f args)
    then show ?thesis using le [of args] by simp
  next
    case (Other cs)
    then show ?thesis using le [of cs] by simp
  qed simp_all
  then show "(todo @ iter_child_nodes n, n # todo)
               \<in> measure (\<lambda>todo. sum_list (map (\<lambda>n. Suc (size n)) todo))"
    by simp
qed

definition walk :: "node \<Rightarrow> node list" where
  "walk tree = walk_queue [tree]"

text \<open>
  The loop of \<^verbatim>\<open>analyze\<close> over the nodes that \<^verbatim>\<open>ast.walk\<close> yields. A call of an
  attribute access is rendered and searched for each keyword in turn; a call of a
  bare name is looked up in the set; no other node returns. An exception of the
  rendering ends the loop.
\<close>

fun check_nodes :: "runtime \<Rightarrow> node list \<Rightarrow> exception + bool \<times> message" where
  "check_nodes rt [] = Inr (True, Passed)"
| "check_nodes rt (Call (Attribute v a) args # ns) =
     (case ast_unparse rt (Attribute v a) of
        Inl x \<Rightarrow> Inl x
      | Inr full_name \<Rightarrow>
          (case find (\<lambda>dangerous. sublist dangerous full_name) (keyword_order rt) of
             Some dangerous \<Rightarrow> Inr (False, Dangerous dangerous)
           | None \<Rightarrow> check_nodes rt ns))"
| "check_nodes rt (Call (Name i) args # ns) =
     (if i \<in> DANGEROUS_KEYWORDS then Inr (False, Dangerous i) else check_nodes rt ns)"
| "check_nodes rt (n # ns) = check_nodes rt ns"

text \<open>
  The handler \<^verbatim>\<open>except SyntaxError as e\<close> around the body of \<^verbatim>\<open>analyze\<close>: a
  \<^verbatim>\<open>SyntaxError\<close> becomes the unsafe verdict with its text, any other exception
  goes on to the caller.
\<close>

definition except_SyntaxError :: "exception + bool \<times> message \<Rightarrow> exception + bool \<times> message" where
  "except_SyntaxError r =
     (case r of
        Inl (PySyntaxError e) \<Rightarrow> Inr (False, SyntaxError e)
      | Inl (PyException n) \<Rightarrow> Inl (PyException n)
      | Inr v \<Rightarrow> Inr v)"

definition analyze :: "runtime \<Rightarrow> string \<Rightarrow> exception + bool \<times> message" where
  "analyze rt code =
     except_SyntaxError
       (case ast_parse rt code of
          Inl x \<Rightarrow> Inl x
        | Inr tree \<Rightarrow> check_nodes rt (walk tree))"

section \<open>The ledger\<close>

text \<open>
  \<^verbatim>\<open>get_user_stats\<close>: a user who has no record gets a zero record at the end of
  the dict; the record of the user is returned.
\<close>

definition get_user_stats :: "state \<Rightarrow> user_id \<Rightarrow> timestamp \<Rightarrow> state \<times> stats" where
  "get_user_stats st uid t =
     (case map_of (user_stats st) uid of
        None \<Rightarrow>
          (let fresh = \<lparr>executions = 0, errors = 0, total_time = 0, first_use = t\<rparr>
           in (st\<lparr>user_stats := user_stats st @ [(uid, fresh)]\<rparr>, fresh))
      | Some s \<Rightarrow> (st, s))"

text \<open>
  An assignment to a key of the dict that \<^verbatim>\<open>get_user_stats\<close> returned: the dict is
  the one stored in \<^verbatim>\<open>user_stats\<close>, so the ledger changes.
\<close>

definition store_stats :: "state \<Rightarrow> user_id \<Rightarrow> stats \<Rightarrow> state" where
  "store_stats st uid s = st\<lparr>user_stats := AList.update uid s (user_stats st)\<rparr>"

section \<open>Running a submission\<close>

text \<open>
  The \<^verbatim>\<open>try\<close> statement of \<^verbatim>\<open>run_code\<close>. The submitted code runs first and leaves
  the global state as its effect says. On normal completion the ledger gets one
  execution and the elapsed time, the history one entry, and the history loses its
  first entry when it is longer than \<^verbatim>\<open>MAX_HISTORY\<close>. The handler of
  \<^verbatim>\<open>asyncio.TimeoutError\<close> only reports. The handler of \<^verbatim>\<open>Exception\<close> adds one
  error and appends one entry. An exception outside the \<^verbatim>\<open>Exception\<close> hierarchy
  leaves the handler. The result is \<open>None\<close> when the awaited coroutine never
  completes: the handler then never returns.
\<close>

definition execute :: "state \<Rightarrow> ctx \<Rightarrow> string \<Rightarrow> (response \<times> state) option" where
  "execute st c code =
     (case awaiting c of
        Returned result execution_time \<Rightarrow>
          (let (st1, s) = get_user_stats (effect c st) (author c) (now c);
               s' = s\<lparr>executions := executions s + 1,
                      total_time := total_time s + execution_time\<rparr>;
               st2 = store_stats st1 (author c) s';
               h = execution_history st2 @
                     [\<lparr>entry_user = author c, entry_code = code, entry_body = Output result,
                       entry_timestamp = now c, entry_status = ''success''\<rparr>];
               h' = (if length h > MAX_HISTORY then tl h else h)
           in Some (PythonExecution result execution_time (executions s'),
                    st2\<lparr>execution_history := h'\<rparr>))
      | RaisedTimeoutError \<Rightarrow> Some (ExecutionTimeout, effect c st)
      | Raised e execution_time \<Rightarrow>
          (let (st1, s) = get_user_stats (effect c st) (author c) (now c);
               s' = s\<lparr>errors := errors s + 1\<rparr>;
               st2 = store_stats st1 (author c) s';
               h = execution_history st2 @
                     [\<lparr>entry_user = author c, entry_code = code, entry_body = Error e,
                       entry_timestamp = now c, entry_status = ''error''\<rparr>]
           in Some (RuntimeError e execution_time, st2\<lparr>execution_history := h\<rparr>))
      | RaisedBase n \<Rightarrow> Some (Unhandled (PyException n), effect c st)
      | Never \<Rightarrow> None)"

text \<open>
  The body of \<^verbatim>\<open>run_code\<close>: the code is cleaned and analyzed; an exception of the
  analyzer leaves the handler; an unsafe verdict for an author outside
  \<^verbatim>\<open>TRUSTED_USERS\<close> ends the command; otherwise the code is run.
\<close>

definition run_code :: "runtime \<Rightarrow> state \<Rightarrow> ctx \<Rightarrow> string \<Rightarrow> (response \<times> state) option" where
  "run_code rt st c code =
     (let code = clean_code code
      in case analyze rt code of
           Inl x \<Rightarrow> Some (Unhandled x, st)
         | Inr (is_safe, analysis_msg) \<Rightarrow>
             if \<not> is_safe \<and> author c \<notin> TRUSTED_USERS st
             then Some (AnalysisFailed analysis_msg, st)
             else execute st c code)"

text \<open>
  The predicate of the decorator \<^verbatim>\<open>is_trusted\<close> (no command of the module is
  decorated with it).
\<close>

definition is_trusted :: "runtime \<Rightarrow> state \<Rightarrow> ctx \<Rightarrow> bool" where
  "is_trusted rt st c \<longleftrightarrow> author c \<in> TRUSTED_USERS st \<or> author c = owner_id rt"

text \<open>The predicate of the decorator \<^verbatim>\<open>is_blocked\<close>: false stands for the raise.\<close>

definition is_blocked :: "state \<Rightarrow> ctx \<Rightarrow> bool" where
  "is_blocked st c \<longleftrightarrow> author c \<notin> BLOCKED_USERS st"

section \<open>Management commands\<close>


text \<open>
  \<^verbatim>\<open>TRUSTED_USERS.add(user.id)\<close>, then the list of the set is stored in the
  configuration and saved.
\<close>

definition trust_user :: "state \<Rightarrow> user_id \<Rightarrow> response \<times> state" where
  "trust_user st u =
     (let t = insert u (TRUSTED_USERS st)
      in (UserTrusted u, st\<lparr>TRUSTED_USERS := t, config := (config st)\<lparr>trusted_users := t\<rparr>\<rparr>))"

definition untrust_user :: "state \<Rightarrow> user_id \<Rightarrow> response \<times> state" where
  "untrust_user st u =
     (let t = TRUSTED_USERS st - {u}
      in (UserUntrusted u, st\<lparr>TRUSTED_USERS := t, config := (config st)\<lparr>trusted_users := t\<rparr>\<rparr>))"

definition block_user :: "state \<Rightarrow> user_id \<Rightarrow> response \<times> state" where
  "block_user st u =
     (let b = insert u (BLOCKED_USERS st)
      in (UserBlocked u, st\<lparr>BLOCKED_USERS := b, config := (config st)\<lparr>blocked_users := b\<rparr>\<rparr>))"

definition unblock_user :: "state \<Rightarrow> user_id \<Rightarrow> response \<times> state" where
  "unblock_user st u =
     (let b = BLOCKED_USERS st - {u}
      in (UserUnblocked u, st\<lparr>BLOCKED_USERS := b, config := (config st)\<lparr>blocked_users := b\<rparr>\<rparr>))"

section \<open>Statistics commands\<close>

text \<open>The two derived fields of the statistics embed.\<close>

definition success_rate :: "stats \<Rightarrow> real" where
  "success_rate s =
     real_of_int (executions s - errors s) / real_of_int (max (executions s) 1) * 100"

definition avg_time :: "stats \<Rightarrow> real" where
  "avg_time s = total_time s / real_of_int (max (executions s) 1)"

definition show_stats :: "state \<Rightarrow> ctx \<Rightarrow> user_id option \<Rightarrow> response \<times> state" where
  "show_stats st c u =
     (let target_user = (case u of Some v \<Rightarrow> v | None \<Rightarrow> author c);
          (st1, s) = get_user_stats st target_user (now c)
      in (Statistics s (success_rate s) (avg_time s), st1))"

text \<open>
  \<^verbatim>\<open>sorted(..., key=executions, reverse=True)[:10]\<close>: descending, equal keys in
  their original order.
\<close>

definition leaderboard :: "state \<Rightarrow> response \<times> state" where
  "leaderboard st =
     (if user_stats st = [] then (NoExecutionData, st)
      else (LeaderboardShown
              (take 10 (sort_key (\<lambda>(u, s). - executions s) (user_stats st))), st))"

text \<open>
  The slice \<^verbatim>\<open>xs[i:]\<close>: a negative start counts from the end, and a start outside
  the list is clipped to it.
\<close>

definition slice_from :: "'a list \<Rightarrow> int \<Rightarrow> 'a list" where
  "slice_from xs i =
     (let n = int (length xs);
          start = (if i < 0 then max (n + i) 0 else min i n)
      in drop (nat start) xs)"

text \<open>
  \<^verbatim>\<open>show_history\<close>, up to the entries it renders:
  \<^verbatim>\<open>execution_history[-limit:][::-1]\<close> after \<^verbatim>\<open>limit = min(limit, 10)\<close>.
\<close>

definition recent :: "state \<Rightarrow> int \<Rightarrow> entry list" where
  "recent st limit = (let limit = min limit 10 in rev (slice_from (execution_history st) (- limit)))"

definition show_history :: "state \<Rightarrow> int \<Rightarrow> response \<times> state" where
  "show_history st limit =
     (if recent st limit = [] then (NoHistory, st)
      else (RecentExecutions (recent st limit), st))"

section \<open>Utility commands\<close>

text \<open>\<^verbatim>\<open>analyze_code\<close>, without the counts of functions, classes and lines.\<close>

definition analyze_code :: "runtime \<Rightarrow> state \<Rightarrow> string \<Rightarrow> response \<times> state" where
  "analyze_code rt st code =
     (case analyze rt (clean_code code) of
        Inl x \<Rightarrow> (Unhandled x, st)
      | Inr (is_safe, m) \<Rightarrow> (CodeAnalysis is_safe m, st))"

section \<open>Dispatch\<close>

text \<open>
  The commands of the bot with their arguments; \<open>History None\<close> is the command
  without a limit, which then is 5.
\<close>

datatype command =
    Run string
  | Trust user_id
  | Untrust user_id
  | Block user_id
  | Unblock user_id
  | Stats "user_id option"
  | Leaderboard
  | History "int option"
  | Analyze string
  | Sync
  | Info

text \<open>
  One command invocation. The checks of a command run before its body:
  \<^verbatim>\<open>is_blocked\<close> for \<^verbatim>\<open>run\<close>, \<^verbatim>\<open>commands.is_owner\<close> for the management commands and
  \<^verbatim>\<open>sync\<close>. A failed check goes to \<^verbatim>\<open>on_command_error\<close>, which sends the denial.
\<close>

definition owner_only :: "runtime \<Rightarrow> state \<Rightarrow> ctx \<Rightarrow> response \<times> state \<Rightarrow> (response \<times> state) option" where
  "owner_only rt st c r =
     (if author c = owner_id rt then Some r else Some (PermissionDenied NotOwner, st))"

fun invoke :: "runtime \<Rightarrow> state \<Rightarrow> ctx \<Rightarrow> command \<Rightarrow> (response \<times> state) option" where
  "invoke rt st c (Run code) =
     (if is_blocked st c then run_code rt st c code else Some (PermissionDenied Blocked, st))"
| "invoke rt st c (Trust u) = owner_only rt st c (trust_user st u)"
| "invoke rt st c (Untrust u) = owner_only rt st c (untrust_user st u)"
| "invoke rt st c (Block u) = owner_only rt st c (block_user st u)"
| "invoke rt st c (Unblock u) = owner_only rt st c (unblock_user st u)"
| "invoke rt st c (Stats u) = Some (show_stats st c u)"
| "invoke rt st c Leaderboard = Some (leaderboard st)"
| "invoke rt st c (History limit) =
     Some (show_history st (case limit of None \<Rightarrow> 5 | Some l \<Rightarrow> l))"
| "invoke rt st c (Analyze code) = Some (analyze_code rt st code)"
| "invoke rt st c Sync = owner_only rt st c (Synchronization, st)"
| "invoke rt st c Info = Some (Help, st)"

text \<open>
  A sequence of invocations, one after the other; it has no final state when one of
  them never returns.
\<close>

fun invoke_all :: "runtime \<Rightarrow> state \<Rightarrow> (ctx \<times> command) list \<Rightarrow> state option" where
  "invoke_all rt st [] = Some st"
| "invoke_all rt st ((c, cmd) # rest) =
     (case invoke rt st c cmd of
        None \<Rightarrow> None
      | Some (r, st') \<Rightarrow> invoke_all rt st' rest)"

section \<open>The claims' own notions\<close>







section \<open>A concrete runtime\<close>

text \<open>
  A runtime to evaluate the handlers on: the owner is user 1; dotted names are
  rendered as \<^verbatim>\<open>ast.unparse\<close> renders them, up to a chain of 300 attribute accesses,
  beyond which the rendering raises \<^verbatim>\<open>RecursionError\<close> (the standard renderer does
  so at a few hundred links, depending on the recursion limit); the keywords are
  iterated in the order of the source text; and the parser is the table of the
  trees that \<^verbatim>\<open>ast.parse\<close> gives for a few one-line programs (\<open>Other\<close> stands for
  the module, statement and constant nodes), with a syntax error for every other
  text.
\<close>

text \<open>The expression \<^verbatim>\<open>a.b.b...b\<close> with \<open>n\<close> attribute accesses, and its text.\<close>

primrec attr_chain :: "nat \<Rightarrow> node" where
  "attr_chain 0 = Name ''a''"
| "attr_chain (Suc n) = Attribute (attr_chain n) ''b''"

definition chain_call_text :: "nat \<Rightarrow> string" where
  "chain_call_text n = ''a'' @ concat (replicate n ''.b'') @ ''()''"

fun attr_depth :: "node \<Rightarrow> nat" where
  "attr_depth (Attribute v a) = Suc (attr_depth v)"
| "attr_depth n = 0"

fun dotted :: "node \<Rightarrow> string" where
  "dotted (Name i) = i"
| "dotted (Attribute v a) = dotted v @ ''.'' @ a"
| "dotted (Call f args) = dotted f @ ''(...)''"
| "dotted (Other cs) = ''...''"

definition sample_unparse :: "node \<Rightarrow> exception + string" where
  "sample_unparse n =
     (if 300 < attr_depth n then Inl (PyException ''RecursionError'') else Inr (dotted n))"

definition sample_parse :: "string \<Rightarrow> exception + node" where
  "sample_parse text =
     (if text = chain_call_text 400 then Inr (Other [Other [Call (attr_chain 400) []]])
      else if text = ''print(1)'' then Inr (Other [Other [Call (Name ''print'') [Other []]]])
      else if text = ''x'' then Inr (Other [Other [Name ''x'']])
      else if text = ''eval(1)'' then Inr (Other [Other [Call (Name ''eval'') [Other []]]])
      else if text = ''os.system(1)''
        then Inr (Other [Other [Call (Attribute (Name ''os'') ''system'') [Other []]]])
      else if text = ''import time; time.sleep(31)''
        then Inr (Other [Other [Other []],
                         Other [Call (Attribute (Name ''time'') ''sleep'') [Other []]]])
      else if text = ''import __main__; __main__.user_stats.clear()''
        then Inr (Other [Other [Other []],
                         Other [Call (Attribute (Attribute (Name ''__main__'') ''user_stats'')
                                        ''clear'') []]])
      else if text = ''while True: pass'' then Inr (Other [Other [Other [], Other []]])
      else Inl (PySyntaxError ''invalid syntax''))"

definition sample_runtime :: runtime where
  "sample_runtime =
     \<lparr>owner_id = 1, ast_parse = sample_parse, ast_unparse = sample_unparse,
      keyword_order =
        [''os.system'', ''subprocess'', ''eval'', ''__import__'',
         ''open'', ''exec'', ''compile'', ''globals'', ''locals'']\<rparr>"

text \<open>The effect of a submission that leaves the global variables of the module alone.\<close>

definition untouched :: "state \<Rightarrow> state" where
  "untouched st = st"


definition no_users :: config where
  "no_users = \<lparr>trusted_users = {}, blocked_users = {}\<rparr>"

text \<open>A state whose history holds twelve entries, more than the cap of the history query.\<close>

definition twelve_runs :: state where
  "twelve_runs =
     (init_state no_users)\<lparr>execution_history :=
        map (\<lambda>n. \<lparr>entry_user = 1, entry_code = ''print(1)'', entry_body = Output ''1'',
                    entry_timestamp = replicate n (CHR ''t''), entry_status = ''success''\<rparr>)
          [0..<12]\<rparr>"

section \<open>Policy sets\<close>


text \<open>
  C9. Trusting a user twice leaves the trusted set as trusting once does, and
  untrusting a user who is not trusted leaves the trusted set as it was; blocking
  twice and unblocking a user who is not blocked do the same on the blocked set.
  The second call of trust and of block even returns the whole state of the first.
\<close>

theorem policy_sets_idempotent:
  "snd (trust_user (snd (trust_user st u)) u) = snd (trust_user st u)
   \<and> (u \<notin> TRUSTED_USERS st \<longrightarrow> TRUSTED_USERS (snd (untrust_user st u)) = TRUSTED_USERS st)
   \<and> snd (block_user (snd (block_user st u)) u) = snd (block_user st u)
   \<and> (u \<notin> BLOCKED_USERS st \<longrightarrow> BLOCKED_USERS (snd (unblock_user st u)) = BLOCKED_USERS st)"
  by (simp add: trust_user_def untrust_user_def block_user_def unblock_user_def Let_def)

theorem policy_sets_idempotent_witness:
  "snd (trust_user (snd (trust_user (init_state \<lparr>trusted_users = {1}, blocked_users = {2}\<rparr>) 3)) 3)
     = snd (trust_user (init_state \<lparr>trusted_users = {1}, blocked_users = {2}\<rparr>) 3)
   \<and> 3 \<notin> TRUSTED_USERS (init_state \<lparr>trusted_users = {1}, blocked_users = {2}\<rparr>)
   \<and> TRUSTED_USERS (snd (untrust_user (init_state \<lparr>trusted_users = {1}, blocked_users = {2}\<rparr>) 3)) = {1}
   \<and> 3 \<notin> BLOCKED_USERS (init_state \<lparr>trusted_users = {1}, blocked_users = {2}\<rparr>)
   \<and> BLOCKED_USERS (snd (unblock_user (init_state \<lparr>trusted_users = {1}, blocked_users = {2}\<rparr>) 3)) = {2}"
  using policy_sets_idempotent [of "init_state \<lparr>trusted_users = {1}, blocked_users = {2}\<rparr>" 3]
  by (simp add: init_state_def)

section \<open>The analyzer\<close>












section \<open>The concrete runtime evaluated\<close>

lemmas sample_eval = sample_runtime_def sample_parse_def sample_unparse_def analyze_def walk_def
  except_SyntaxError_def DANGEROUS_KEYWORDS_def sublist_Cons_right chain_call_text_def

lemmas ledger_eval = execute_def get_user_stats_def store_stats_def init_state_def
  no_users_def is_blocked_def Let_def MAX_HISTORY_def untouched_def


lemma clean_code_samples:
  "clean_code ''x'' = ''x''"
  "clean_code ''print(1)'' = ''print(1)''"
  "clean_code ''eval(1)'' = ''eval(1)''"
  "clean_code ''import time; time.sleep(31)'' = ''import time; time.sleep(31)''"
  "clean_code ''while True: pass'' = ''while True: pass''"
  "clean_code ''import __main__; __main__.user_stats.clear()''
     = ''import __main__; __main__.user_stats.clear()''"
  by (simp_all add: clean_code_def strip_def fence_def)

lemma analyze_samples:
  "analyze sample_runtime ''x'' = Inr (True, Passed)"
  "analyze sample_runtime ''print(1)'' = Inr (True, Passed)"
  "analyze sample_runtime ''eval(1)'' = Inr (False, Dangerous ''eval'')"
  "analyze sample_runtime ''import time; time.sleep(31)'' = Inr (True, Passed)"
  "analyze sample_runtime ''while True: pass'' = Inr (True, Passed)"
  "analyze sample_runtime ''import __main__; __main__.user_stats.clear()'' = Inr (True, Passed)"
  by (simp_all add: sample_eval)

lemma run_code_samples:
  "run_code sample_runtime st c ''x'' = execute st c ''x''"
  "run_code sample_runtime st c ''print(1)'' = execute st c ''print(1)''"
  "run_code sample_runtime st c ''import time; time.sleep(31)'' = execute st c ''import time; time.sleep(31)''"
  "run_code sample_runtime st c ''while True: pass'' = execute st c ''while True: pass''"
  "run_code sample_runtime st c ''import __main__; __main__.user_stats.clear()''
     = execute st c ''import __main__; __main__.user_stats.clear()''"
  by (simp_all add: run_code_def clean_code_samples analyze_samples)







section \<open>The gates of the run command\<close>

text \<open>
  C7. A run by an author in the blocked set is denied, whatever the trusted set, the
  owner and the code are, and the denial returns the state it was given: history,
  ledger, policy sets and configuration are the same.
\<close>

theorem blocked_run_denied:
  "author c \<in> BLOCKED_USERS st \<Longrightarrow> invoke rt st c (Run code) = Some (PermissionDenied Blocked, st)"
  by (simp add: is_blocked_def)

theorem blocked_run_denied_witness:
  "author \<lparr>author = 1, now = ''t0'', awaiting = Returned ''1'' 0, effect = untouched\<rparr>
      \<in> BLOCKED_USERS (init_state \<lparr>trusted_users = {1}, blocked_users = {1}\<rparr>)
   \<and> is_trusted sample_runtime (init_state \<lparr>trusted_users = {1}, blocked_users = {1}\<rparr>)
        \<lparr>author = 1, now = ''t0'', awaiting = Returned ''1'' 0, effect = untouched\<rparr>
   \<and> author \<lparr>author = 1, now = ''t0'', awaiting = Returned ''1'' 0, effect = untouched\<rparr> = owner_id sample_runtime
   \<and> invoke sample_runtime (init_state \<lparr>trusted_users = {1}, blocked_users = {1}\<rparr>)
        \<lparr>author = 1, now = ''t0'', awaiting = Returned ''1'' 0, effect = untouched\<rparr> (Run ''print(1)'')
      = Some (PermissionDenied Blocked, init_state \<lparr>trusted_users = {1}, blocked_users = {1}\<rparr>)"
  using blocked_run_denied [of "\<lparr>author = 1, now = ''t0'', awaiting = Returned ''1'' 0, effect = untouched\<rparr>"
      "init_state \<lparr>trusted_users = {1}, blocked_users = {1}\<rparr>" sample_runtime "''print(1)''"]
  by (simp add: init_state_def is_trusted_def sample_runtime_def)

text \<open>
  An author in the trusted set passes the analyzer gate whatever the verdict is, when
  the analyzer returns one.
\<close>

lemma trusted_member_runs:
  "author c \<in> TRUSTED_USERS st \<Longrightarrow> analyze rt (clean_code code) = Inr v \<Longrightarrow>
   run_code rt st c code = execute st c (clean_code code)"
  by (cases v) (simp add: run_code_def Let_def)

text \<open>
  C6, evaluated on the code. The owner (user 1), who is not in the trusted set, is
  trusted by the predicate of \<^verbatim>\<open>is_trusted\<close>, yet the run of \<^verbatim>\<open>eval(1)\<close> ends at the
  analyzer gate, which looks at the trusted set only: the code is not executed.
\<close>

theorem owner_not_exempt:
  "is_trusted sample_runtime (init_state no_users) \<lparr>author = 1, now = ''t0'', awaiting = Returned [] 0, effect = untouched\<rparr>
   \<and> invoke sample_runtime (init_state no_users)
        \<lparr>author = 1, now = ''t0'', awaiting = Returned [] 0, effect = untouched\<rparr> (Run ''eval(1)'')
     = Some (AnalysisFailed (Dangerous ''eval''), init_state no_users)"
proof
  show "is_trusted sample_runtime (init_state no_users)
          \<lparr>author = 1, now = ''t0'', awaiting = Returned [] 0, effect = untouched\<rparr>"
    by (simp add: is_trusted_def sample_runtime_def)
  show "invoke sample_runtime (init_state no_users)
          \<lparr>author = 1, now = ''t0'', awaiting = Returned [] 0, effect = untouched\<rparr> (Run ''eval(1)'')
        = Some (AnalysisFailed (Dangerous ''eval''), init_state no_users)"
    by (simp add: run_code_def clean_code_samples analyze_samples
        init_state_def no_users_def is_blocked_def)
qed

section \<open>The deadline\<close>

text \<open>
  C1, evaluated on the code. A submission that completes after 31 seconds, more than
  \<^verbatim>\<open>EXECUTION_TIMEOUT\<close>, is reported as a successful execution with elapsed time 31
  and enters the ledger and the history; a submission that never completes gives no
  response at all. No deadline is applied to the awaited code.
\<close>

theorem timeout_not_enforced:
  "EXECUTION_TIMEOUT < 31
   \<and> invoke sample_runtime (init_state no_users)
        \<lparr>author = 1, now = ''t0'', awaiting = Returned [] 31, effect = untouched\<rparr> (Run ''import time; time.sleep(31)'')
     = Some (PythonExecution [] 31 1,
         (init_state no_users)\<lparr>
           user_stats := [(1, \<lparr>executions = 1, errors = 0, total_time = 31, first_use = ''t0''\<rparr>)],
           execution_history := [\<lparr>entry_user = 1, entry_code = ''import time; time.sleep(31)'',
              entry_body = Output [], entry_timestamp = ''t0'', entry_status = ''success''\<rparr>]\<rparr>)
   \<and> invoke sample_runtime (init_state no_users)
        \<lparr>author = 1, now = ''t0'', awaiting = Never, effect = untouched\<rparr> (Run ''while True: pass'') = None"
  by (simp add: run_code_samples ledger_eval EXECUTION_TIMEOUT_def)

section \<open>The ledger after failures\<close>

text \<open>
  C2, evaluated on the code. After one success with elapsed 0.1 and one failure with
  elapsed 0.2 of the same user, the user's record reads executions 1, errors 1 and
  total time 0.1: the failure path adds to the errors only.
\<close>

theorem failure_counts_only_error:
  "invoke_all sample_runtime (init_state no_users)
     [(\<lparr>author = 1, now = ''t0'', awaiting = Returned ''1'' 0.1, effect = untouched\<rparr>, Run ''print(1)''),
      (\<lparr>author = 1, now = ''t1'', awaiting = Raised ''NameError'' 0.2, effect = untouched\<rparr>, Run ''x'')]
   = Some ((init_state no_users)\<lparr>
       user_stats := [(1, \<lparr>executions = 1, errors = 1, total_time = 0.1, first_use = ''t0''\<rparr>)],
       execution_history :=
         [\<lparr>entry_user = 1, entry_code = ''print(1)'', entry_body = Output ''1'',
            entry_timestamp = ''t0'', entry_status = ''success''\<rparr>,
          \<lparr>entry_user = 1, entry_code = ''x'', entry_body = Error ''NameError'',
            entry_timestamp = ''t1'', entry_status = ''error''\<rparr>]\<rparr>)"
  by (simp add: run_code_samples ledger_eval)

text \<open>
  C3, evaluated on the code. After a single failing run of a new user the record has
  0 executions and 1 error, so errors exceed executions; the success rate that the
  statistics command computes from this record is -100.
\<close>

theorem errors_exceed_executions:
  "invoke sample_runtime (init_state no_users)
     \<lparr>author = 1, now = ''t0'', awaiting = Raised ''NameError'' 0.2, effect = untouched\<rparr> (Run ''x'')
   = Some (RuntimeError ''NameError'' 0.2,
       (init_state no_users)\<lparr>
         user_stats := [(1, \<lparr>executions = 0, errors = 1, total_time = 0, first_use = ''t0''\<rparr>)],
         execution_history := [\<lparr>entry_user = 1, entry_code = ''x'', entry_body = Error ''NameError'',
            entry_timestamp = ''t0'', entry_status = ''error''\<rparr>]\<rparr>)
   \<and> success_rate \<lparr>executions = 0, errors = 1, total_time = 0, first_use = ''t0''\<rparr> = - 100"
  by (simp add: run_code_samples ledger_eval success_rate_def)

section \<open>The history bound\<close>

text \<open>Reading or creating a record leaves the history and the blocked set alone.\<close>

lemma get_user_stats_other:
  "execution_history (fst (get_user_stats st u t)) = execution_history st"
  "BLOCKED_USERS (fst (get_user_stats st u t)) = BLOCKED_USERS st"
  by (simp_all add: get_user_stats_def Let_def split: option.splits)

text \<open>A failing run appends one entry and evicts none.\<close>

lemma execute_raised:
  assumes "awaiting c = Raised e d"
  shows "\<exists>r st1. execute st c code = Some (r, st1)
           \<and> length (execution_history st1) = Suc (length (execution_history (effect c st)))
           \<and> BLOCKED_USERS st1 = BLOCKED_USERS (effect c st)"
proof -
  obtain st0 s where g: "get_user_stats (effect c st) (author c) (now c) = (st0, s)"
    by (cases "get_user_stats (effect c st) (author c) (now c)")
  with get_user_stats_other [of "effect c st" "author c" "now c"]
  have "execution_history st0 = execution_history (effect c st)"
    "BLOCKED_USERS st0 = BLOCKED_USERS (effect c st)"
    by simp_all
  then show ?thesis
    using assms g by (simp add: execute_def Let_def store_stats_def)
qed

text \<open>
  A successful run of a history that is within the capacity leaves it within the
  capacity, puts its entry last, and drops the oldest entry of a full history.
\<close>

lemma execute_returned_bound:
  assumes "awaiting c = Returned out t"
    and "length (execution_history (effect c st)) \<le> MAX_HISTORY"
    and "execute st c code = Some (r, st1)"
  shows "length (execution_history st1) \<le> MAX_HISTORY
       \<and> last (execution_history st1)
           = \<lparr>entry_user = author c, entry_code = code, entry_body = Output out,
              entry_timestamp = now c, entry_status = ''success''\<rparr>
       \<and> (length (execution_history (effect c st)) = MAX_HISTORY \<longrightarrow>
            butlast (execution_history st1) = tl (execution_history (effect c st)))"
proof -
  obtain st0 s where g: "get_user_stats (effect c st) (author c) (now c) = (st0, s)"
    by (cases "get_user_stats (effect c st) (author c) (now c)")
  with get_user_stats_other(1) [of "effect c st" "author c" "now c"]
  have h0: "execution_history st0 = execution_history (effect c st)"
    by simp
  let ?e = "\<lparr>entry_user = author c, entry_code = code, entry_body = Output out,
              entry_timestamp = now c, entry_status = ''success''\<rparr>"
  let ?h = "execution_history (effect c st) @ [?e]"
  from assms(1,3) g h0
  have h1: "execution_history st1 = (if MAX_HISTORY < length ?h then tl ?h else ?h)"
    by (auto simp: execute_def Let_def store_stats_def)
  show ?thesis
  proof (cases "execution_history (effect c st)")
    case Nil
    with h1 show ?thesis by (simp add: MAX_HISTORY_def)
  next
    case (Cons x xs)
    with h1 assms(2) show ?thesis by (simp add: MAX_HISTORY_def)
  qed
qed

lemma failing_run_step:
  "1 \<notin> BLOCKED_USERS st \<Longrightarrow>
   invoke sample_runtime st \<lparr>author = 1, now = t, awaiting = Raised e d, effect = untouched\<rparr> (Run ''x'')
     = execute st \<lparr>author = 1, now = t, awaiting = Raised e d, effect = untouched\<rparr> ''x''"
  by (simp add: is_blocked_def run_code_samples)

lemma failing_runs_grow:
  "1 \<notin> BLOCKED_USERS st \<Longrightarrow>
   \<exists>st'. invoke_all sample_runtime st
            (replicate n (\<lparr>author = 1, now = t, awaiting = Raised e d, effect = untouched\<rparr>, Run ''x'')) = Some st'
        \<and> length (execution_history st') = length (execution_history st) + n
        \<and> BLOCKED_USERS st' = BLOCKED_USERS st"
proof (induction n arbitrary: st)
  case 0
  then show ?case by simp
next
  case (Suc n)
  from execute_raised [of "\<lparr>author = 1, now = t, awaiting = Raised e d, effect = untouched\<rparr>" e d st "''x''"]
  obtain r st1 where s1: "execute st \<lparr>author = 1, now = t, awaiting = Raised e d, effect = untouched\<rparr> ''x'' = Some (r, st1)"
    "length (execution_history st1) = Suc (length (execution_history st))"
    "BLOCKED_USERS st1 = BLOCKED_USERS st"
    by (auto simp: untouched_def)
  with Suc.prems have "1 \<notin> BLOCKED_USERS st1" by simp
  from Suc.IH [OF this] obtain st' where s2:
    "invoke_all sample_runtime st1
       (replicate n (\<lparr>author = 1, now = t, awaiting = Raised e d, effect = untouched\<rparr>, Run ''x'')) = Some st'"
    "length (execution_history st') = length (execution_history st1) + n"
    "BLOCKED_USERS st' = BLOCKED_USERS st1"
    by blast
  have "invoke_all sample_runtime st
          (replicate (Suc n) (\<lparr>author = 1, now = t, awaiting = Raised e d, effect = untouched\<rparr>, Run ''x'')) = Some st'"
    using failing_run_step [OF Suc.prems, of t e d] s1(1) s2(1) by simp
  with s1 s2 show ?case by simp
qed

text \<open>
  C4, evaluated on the code. After 101 failing runs from the empty history the history
  holds 101 entries, one more than \<^verbatim>\<open>MAX_HISTORY\<close>: the failure path appends without
  evicting, which only the success path does.
\<close>

theorem history_exceeds_capacity:
  "map_option (length \<circ> execution_history)
     (invoke_all sample_runtime (init_state no_users)
        (replicate 101 (\<lparr>author = 1, now = ''t0'', awaiting = Raised ''NameError'' 0.2, effect = untouched\<rparr>, Run ''x'')))
   = Some 101
   \<and> MAX_HISTORY = 100"
proof -
  have nb: "1 \<notin> BLOCKED_USERS (init_state no_users)"
    by (simp add: init_state_def no_users_def)
  have len0: "length (execution_history (init_state no_users)) = 0"
    by (simp add: init_state_def)
  from failing_runs_grow [OF nb, of 101 "''t0''" "''NameError''" "0.2"]
  obtain st' where run: "invoke_all sample_runtime (init_state no_users)
        (replicate 101 (\<lparr>author = 1, now = ''t0'', awaiting = Raised ''NameError'' 0.2, effect = untouched\<rparr>, Run ''x''))
      = Some st'"
    and len: "length (execution_history st') = length (execution_history (init_state no_users)) + 101"
    by blast
  have "map_option (length \<circ> execution_history) (Some st') = Some 101"
    unfolding option.map comp_apply len len0 by simp
  then show ?thesis
    unfolding run MAX_HISTORY_def by simp
qed

section \<open>Creation of ledger records\<close>











section \<open>The history query\<close>

text \<open>
  C10, as the code has it. The history query with limit 0 shows the whole stored
  history, most recent first, so more than ten entries when more than ten are stored;
  with a negative limit it shows all but the first \<open>|limit|\<close> stored entries, most
  recent first; only a positive limit is capped at ten entries. A non-empty
  selection is what the command sends, and the state stays as it is. The selection
  holds at most \<^verbatim>\<open>MAX_HISTORY\<close> entries when the stored history does.
\<close>

theorem recent_limits:
  "recent st 0 = rev (execution_history st)
   \<and> (10 < length (execution_history st) \<longrightarrow> 10 < length (recent st 0))
   \<and> (limit < 0 \<longrightarrow> recent st limit = rev (drop (nat (- limit)) (execution_history st)))
   \<and> (0 < limit \<longrightarrow> length (recent st limit) \<le> 10)
   \<and> (recent st limit \<noteq> [] \<longrightarrow> show_history st limit = (RecentExecutions (recent st limit), st))
   \<and> (length (execution_history st) \<le> MAX_HISTORY \<longrightarrow> length (recent st limit) \<le> MAX_HISTORY)"
  by (auto simp: recent_def slice_from_def show_history_def Let_def min_def max_def)

theorem recent_limits_witness:
  "10 < length (execution_history twelve_runs)
   \<and> length (execution_history twelve_runs) \<le> MAX_HISTORY
   \<and> length (recent twelve_runs 0) = 12
   \<and> (- 2 :: int) < 0
   \<and> recent twelve_runs (- 2) = rev (drop 2 (execution_history twelve_runs))
   \<and> length (recent twelve_runs (- 2)) = 10
   \<and> (0 :: int) < 3
   \<and> length (recent twelve_runs 3) = 3
   \<and> recent twelve_runs 3 \<noteq> []
   \<and> show_history twelve_runs 3 = (RecentExecutions (recent twelve_runs 3), twelve_runs)"
proof -
  have len: "length (execution_history twelve_runs) = 12"
    by (simp add: twelve_runs_def)
  have three: "length (recent twelve_runs 3) = 3"
    by (simp add: recent_def slice_from_def Let_def len)
  then have ne: "recent twelve_runs 3 \<noteq> []"
    by auto
  from recent_limits [of twelve_runs "- 2"] len
  have neg: "length (recent twelve_runs 0) = 12"
    "recent twelve_runs (- 2) = rev (drop 2 (execution_history twelve_runs))"
    by simp_all
  from recent_limits [of twelve_runs 3] ne
  have pos: "show_history twelve_runs 3 = (RecentExecutions (recent twelve_runs 3), twelve_runs)"
    by simp
  from len three ne neg pos show ?thesis
    by (simp add: MAX_HISTORY_def)
qed

text \<open>
  C10 as stated fails in its bound of 100 entries: after 101 failing runs the query
  with limit 0 selects 101 entries.
\<close>

theorem history_query_exceeds_capacity:
  "invoke_all sample_runtime (init_state no_users)
      (replicate 101
         (\<lparr>author = 1, now = ''t0'', awaiting = Raised ''NameError'' 0.2, effect = untouched\<rparr>,
          Run ''x'')) \<noteq> None
   \<and> length (recent (the (invoke_all sample_runtime (init_state no_users)
        (replicate 101
           (\<lparr>author = 1, now = ''t0'', awaiting = Raised ''NameError'' 0.2, effect = untouched\<rparr>,
            Run ''x'')))) 0) = 101
   \<and> MAX_HISTORY = 100"
proof -
  have nb: "1 \<notin> BLOCKED_USERS (init_state no_users)"
    by (simp add: init_state_def no_users_def)
  have len0: "length (execution_history (init_state no_users)) = 0"
    by (simp add: init_state_def)
  from failing_runs_grow [OF nb, of 101 "''t0''" "''NameError''" "0.2"]
  obtain st' where run: "invoke_all sample_runtime (init_state no_users)
        (replicate 101
           (\<lparr>author = 1, now = ''t0'', awaiting = Raised ''NameError'' 0.2, effect = untouched\<rparr>,
            Run ''x''))
      = Some st'"
    and len: "length (execution_history st') = length (execution_history (init_state no_users)) + 101"
    by blast
  have "length (recent st' 0) = 101"
    unfolding len0 using len by (simp add: recent_def slice_from_def Let_def len0)
  then show ?thesis
    unfolding run MAX_HISTORY_def by simp
qed

end
